theory Spec2Isabelle
  imports Main "HOL-Library.Sublist"
begin

section \<open>Entities\<close>

text \<open>
  An \<open>Entity\<close> of the data source: its id, the path of its collection and its values.
  The components below only ever read \<open>entity.id\<close>; the values are carried along.
\<close>

record Entity =
  entity_id :: string
  entity_path :: string
  entity_values :: "(string \<times> string) list"

section \<open>ReferenceDialog\<close>

text \<open>
  \<open>ReferenceDialogProps\<close>. The three callbacks are optional props: the model records
  whether each one was supplied, and a call of a supplied callback is an entry of the
  list of effects a handler returns. \<open>collection\<close> is tested for truthiness by the
  component, so its presence is a flag as well.
\<close>

record ReferenceDialogProps =
  multiselect :: bool
  collection :: bool
  selectedEntityIds :: "string list option"
  onSingleEntitySelected :: bool
  onMultipleEntitiesSelected :: bool
  onClose :: bool

text \<open>What a handler does besides updating the component state, in the order it does it.\<close>

datatype effect =
    SingleEntitySelected "Entity option"
  | MultipleEntitiesSelected "Entity list"
  | SideDialogClose
  | OnClose

text \<open>
  The state of the dialog, \<open>useState<Entity[] | undefined>()\<close>: \<open>None\<close> is
  \<open>undefined\<close> (the initial selection is still loading).
\<close>

record ReferenceDialogState =
  selectedEntities :: "Entity list option"

subsection \<open>Promises\<close>

text \<open>
  A promise at one moment: still pending, fulfilled with a value or rejected.
  \<open>Promise.all\<close> of a list of promises is rejected as soon as one of them is, fulfilled
  with the values in the order of the list once every one is fulfilled, and pending
  otherwise.
\<close>

datatype 'a promise = Pending | Fulfilled 'a | Rejected string


subsection \<open>The effect that fetches the initially selected ids\<close>


subsection \<open>The handlers\<close>

definition onClear ::
  "ReferenceDialogProps \<Rightarrow> ReferenceDialogState \<Rightarrow> ReferenceDialogState \<times> effect list" where
  "onClear props st =
     (if \<not> multiselect props \<and> onSingleEntitySelected props then
        (st, [SingleEntitySelected None])
      else if onMultipleEntitiesSelected props then
        (st, [MultipleEntitiesSelected []])
      else (st, []))"

definition toggleEntitySelection ::
  "ReferenceDialogProps \<Rightarrow> ReferenceDialogState \<Rightarrow> Entity \<Rightarrow> ReferenceDialogState \<times> effect list" where
  "toggleEntitySelection props st entity =
     (case selectedEntities st of
        None \<Rightarrow> (st, [])
      | Some sel \<Rightarrow>
          let newValue =
                (if entity_id entity \<in> set (map entity_id sel)
                 then filter (\<lambda>item. entity_id item \<noteq> entity_id entity) sel
                 else sel @ [entity])
          in (st\<lparr>selectedEntities := Some newValue\<rparr>,
              if onMultipleEntitiesSelected props then [MultipleEntitiesSelected newValue] else []))"

definition onEntityClick ::
  "ReferenceDialogProps \<Rightarrow> ReferenceDialogState \<Rightarrow> Entity \<Rightarrow> ReferenceDialogState \<times> effect list" where
  "onEntityClick props st entity =
     (if \<not> multiselect props \<and> onSingleEntitySelected props then
        (st, [SingleEntitySelected (Some entity), SideDialogClose])
      else toggleEntitySelection props st entity)"

text \<open>The mark of a row, as \<open>tableRowActionsBuilder\<close> computes it.\<close>

definition isSelected :: "ReferenceDialogState \<Rightarrow> Entity \<Rightarrow> bool" where
  "isSelected st entity =
     (case selectedEntities st of
        None \<Rightarrow> False
      | Some sel \<Rightarrow> entity_id entity \<in> set (map entity_id sel))"

section \<open>EntityCollectionTable: the bulk delete button\<close>

text \<open>
  \<open>canDelete\<close> stands for the permission check of \<open>util/permissions\<close> with the
  collection's permissions, the auth controller, the path and the context fixed: a
  predicate on the entity. The button is rendered only when selection is enabled; both
  layouts give it the same \<open>disabled\<close> attribute.
\<close>

record Button =
  disabled :: bool
  tooltip :: string

definition multipleDeleteEnabled :: "(Entity \<Rightarrow> bool) \<Rightarrow> Entity list \<Rightarrow> bool" where
  "multipleDeleteEnabled canDelete selected = list_all canDelete selected"

definition multipleDeleteButton :: "bool \<Rightarrow> (Entity \<Rightarrow> bool) \<Rightarrow> Entity list \<Rightarrow> Button option" where
  "multipleDeleteButton selectionEnabled canDelete selected =
     (if selectionEnabled then
        Some \<lparr>disabled = (length selected = 0 \<or> \<not> multipleDeleteEnabled canDelete selected),
              tooltip = (if multipleDeleteEnabled canDelete selected then ''Multiple delete''
                         else ''You have selected one entity you cannot delete'')\<rparr>
      else None)"

section \<open>The schema editor\<close>

subsection \<open>Properties and the tree of the drag-and-drop view\<close>

text \<open>
  \<open>PropertyOrBuilder\<close>: a concrete property (an object with a title, a
  \<open>dataType\<close>, validation rules and, for a map, its nested properties in insertion
  order) or a builder (a function, opaque to the editor).
\<close>

datatype PropertyOrBuilder =
    Property string string "string list" "(string \<times> PropertyOrBuilder) list"
  | Builder nat

text \<open>
  Modelled from the spec: the types \<open>TreeData\<close>, \<open>TreeSourcePosition\<close> and
  \<open>TreeDestinationPosition\<close> are declared in the \<open>Tree\<close> module, which is
  not among the sources. The spec's data model has \<open>{ rootId, items:
  mapping<itemId, { id, children, data: { property } }> }\<close>, the root without a
  \<open>data.property\<close>, and a move from \<open>{parentId, index}\<close> to
  \<open>{parentId, index}\<close>; \<open>onDragEnd\<close> tests the destination's index for
  \<open>undefined\<close>. The mapping is an association list read with \<open>map_of\<close>.
\<close>

record TreeItemData =
  property :: "PropertyOrBuilder option"

record TreeItem =
  item_id :: string
  children :: "string list"
  data :: TreeItemData

record TreeData =
  rootId :: string
  items :: "(string \<times> TreeItem) list"

record TreeSourcePosition =
  src_parentId :: string
  src_index :: nat

record TreeDestinationPosition =
  dst_parentId :: string
  dst_index :: "nat option"

datatype error = TypeError

text \<open>
  \<open>isValidDrag\<close>. Reading a field of \<open>undefined\<close> throws a \<open>TypeError\<close>:
  that is the result \<open>Inl TypeError\<close>. An index past the end of \<open>children\<close>
  reads \<open>undefined\<close>, and \<open>tree.items[undefined]\<close> looks up the key
  \<open>"undefined"\<close>.
\<close>

definition isValidDrag ::
  "TreeData \<Rightarrow> TreeSourcePosition \<Rightarrow> TreeDestinationPosition \<Rightarrow> error + bool" where
  "isValidDrag tree source destination =
     (case map_of (items tree) (src_parentId source) of
        None \<Rightarrow> Inl TypeError
      | Some sourceParent \<Rightarrow>
          let draggedPropertyId =
                (if src_index source < length (children sourceParent)
                 then children sourceParent ! src_index source
                 else ''undefined'')
          in
          (case map_of (items tree) draggedPropertyId of
             None \<Rightarrow> Inl TypeError
           | Some dragged \<Rightarrow>
               (case property (data dragged) of
                  Some (Builder b) \<Rightarrow> Inr False
                | _ \<Rightarrow>
                    if dst_index destination = None then Inr False
                    else if dst_parentId destination = rootId tree then Inr True
                    else
                      (case map_of (items tree) (dst_parentId destination) of
                         None \<Rightarrow> Inl TypeError
                       | Some destinationParent \<Rightarrow>
                           (case map_of (items tree) (item_id destinationParent) of
                              None \<Rightarrow> Inl TypeError
                            | Some destinationItem \<Rightarrow>
                                (case property (data destinationItem) of
                                   Some (Property t dataType v ps) \<Rightarrow> Inr (dataType = ''map'')
                                 | _ \<Rightarrow> Inr False))))))"

subsection \<open>The form\<close>

record EntitySchema =
  schema_id :: string
  name :: string
  properties :: "(string \<times> PropertyOrBuilder) list"
  propertiesOrder :: "string list option"

text \<open>
  The part of Formik's state the editor reads: the draft (\<open>values\<close>, here \<open>formValues\<close>), the values the
  draft is compared with (\<open>dirty\<close> is their difference) and the touched flag of the
  \<open>id\<close> field. \<open>resetForm({ values })\<close> makes the given values both the draft and
  the initial values and clears the touched flags.
\<close>

record Formik =
  formValues :: EntitySchema
  initialValues :: EntitySchema
  touched_id :: bool

definition dirty :: "Formik \<Rightarrow> bool" where
  "dirty f = (formValues f \<noteq> initialValues f)"

definition resetForm :: "EntitySchema \<Rightarrow> Formik \<Rightarrow> Formik" where
  "resetForm newValues f = f\<lparr>formValues := newValues, initialValues := newValues, touched_id := False\<rparr>"

record SchemaEditorForm =
  formik :: Formik
  pendingMove :: "(TreeSourcePosition \<times> TreeDestinationPosition) option"

subsection \<open>Deriving the id from the name\<close>

text \<open>
  The effect with the dependencies \<open>[isNewSchema, touched, values.name]\<close>.
  \<open>toSnakeCase\<close> (of \<open>util/strings\<close>, not among the sources) is a parameter. The
  empty string is falsy, so the effect does nothing for an empty name.
\<close>

definition idFromNameEffect :: "(string \<Rightarrow> string) \<Rightarrow> bool \<Rightarrow> Formik \<Rightarrow> Formik" where
  "idFromNameEffect toSnakeCase isNewSchema f =
     (if \<not> touched_id f \<and> isNewSchema \<and> name (formValues f) \<noteq> []
      then f\<lparr>formValues := (formValues f)\<lparr>schema_id := toSnakeCase (name (formValues f))\<rparr>\<rparr>
      else f)"

text \<open>
  A change of the name field: \<open>handleChange\<close> stores the new value, and the effect runs
  after the render when \<open>values.name\<close> is a different string.
\<close>

definition nameChanged :: "(string \<Rightarrow> string) \<Rightarrow> bool \<Rightarrow> string \<Rightarrow> Formik \<Rightarrow> Formik" where
  "nameChanged toSnakeCase isNewSchema newName f =
     (let f' = f\<lparr>formValues := (formValues f)\<lparr>name := newName\<rparr>\<rparr>
      in if newName \<noteq> name (formValues f) then idFromNameEffect toSnakeCase isNewSchema f' else f')"

text \<open>
  A change of the id field by hand. The input is rendered with
  \<open>onChange={handleChange}\<close> and no \<open>onBlur\<close>: \<open>handleChange\<close> stores the new
  value and leaves the touched flags alone (Formik sets them in \<open>handleBlur\<close>, which
  the form never passes on). \<open>values.id\<close> is not a dependency of the effect, so the
  effect does not run.
\<close>

definition idChanged :: "string \<Rightarrow> Formik \<Rightarrow> Formik" where
  "idChanged newId f = f\<lparr>formValues := (formValues f)\<lparr>schema_id := newId\<rparr>\<rparr>"

subsection \<open>Drag and drop\<close>

text \<open>
  \<open>sortProperties\<close>, \<open>propertiesToTree\<close>, \<open>moveItemOnTree\<close> and
  \<open>treeToProperties\<close> are imported from modules that are not among the sources: the
  handlers take them as the parameters \<open>sortP\<close>, \<open>toTree\<close>, \<open>move\<close> and
  \<open>fromTree\<close>.
\<close>

definition treeMemo ::
  "((string \<times> PropertyOrBuilder) list \<Rightarrow> string list option \<Rightarrow> (string \<times> PropertyOrBuilder) list)
     \<Rightarrow> ((string \<times> PropertyOrBuilder) list \<Rightarrow> TreeData) \<Rightarrow> SchemaEditorForm \<Rightarrow> TreeData" where
  "treeMemo sortP toTree st =
     toTree (sortP (properties (formValues (formik st))) (propertiesOrder (formValues (formik st))))"

definition doPropertyMove ::
  "(TreeData \<Rightarrow> TreeSourcePosition \<Rightarrow> TreeDestinationPosition \<Rightarrow> TreeData)
     \<Rightarrow> (TreeData \<Rightarrow> (string \<times> PropertyOrBuilder) list \<times> string list)
     \<Rightarrow> TreeData \<Rightarrow> TreeSourcePosition \<Rightarrow> TreeDestinationPosition
     \<Rightarrow> SchemaEditorForm \<Rightarrow> SchemaEditorForm" where
  "doPropertyMove move fromTree tree source destination st =
     (let newTree = move tree source destination;
          (props, order) = fromTree newTree
      in st\<lparr>formik := (formik st)\<lparr>formValues :=
              (formValues (formik st))\<lparr>propertiesOrder := Some order, properties := props\<rparr>\<rparr>\<rparr>)"

text \<open>
  \<open>onDragEnd\<close>. An exception of \<open>isValidDrag\<close> leaves the handler before any
  state is set.
\<close>

definition onDragEnd ::
  "(TreeData \<Rightarrow> TreeSourcePosition \<Rightarrow> TreeDestinationPosition \<Rightarrow> TreeData)
     \<Rightarrow> (TreeData \<Rightarrow> (string \<times> PropertyOrBuilder) list \<times> string list)
     \<Rightarrow> TreeData \<Rightarrow> TreeSourcePosition \<Rightarrow> TreeDestinationPosition option
     \<Rightarrow> SchemaEditorForm \<Rightarrow> error + SchemaEditorForm" where
  "onDragEnd move fromTree tree source destination st =
     (case destination of
        None \<Rightarrow> Inr st
      | Some dest \<Rightarrow>
          (case isValidDrag tree source dest of
             Inl e \<Rightarrow> Inl e
           | Inr valid \<Rightarrow>
               if \<not> valid then Inr st
               else if src_parentId source \<noteq> dst_parentId dest
               then Inr (st\<lparr>pendingMove := Some (source, dest)\<rparr>)
               else Inr (doPropertyMove move fromTree tree source dest st)))"

text \<open>The pending-move dialog: whether it is open, its two paragraphs and its buttons.\<close>

definition PendingMoveDialog_open :: "SchemaEditorForm \<Rightarrow> bool" where
  "PendingMoveDialog_open st = (pendingMove st \<noteq> None)"

definition PendingMoveDialog_text :: "string list" where
  "PendingMoveDialog_text =
     [''You are moving one property from one context to another.'',
      ''This will not transfer the data, only modify the schema.'']"

definition PendingMoveDialog_onAccept ::
  "(TreeData \<Rightarrow> TreeSourcePosition \<Rightarrow> TreeDestinationPosition \<Rightarrow> TreeData)
     \<Rightarrow> (TreeData \<Rightarrow> (string \<times> PropertyOrBuilder) list \<times> string list)
     \<Rightarrow> TreeData \<Rightarrow> SchemaEditorForm \<Rightarrow> SchemaEditorForm" where
  "PendingMoveDialog_onAccept move fromTree tree st =
     (case pendingMove st of
        None \<Rightarrow> st\<lparr>pendingMove := None\<rparr>
      | Some (source, dest) \<Rightarrow>
          doPropertyMove move fromTree tree source dest (st\<lparr>pendingMove := None\<rparr>))"

definition PendingMoveDialog_onCancel :: "SchemaEditorForm \<Rightarrow> SchemaEditorForm" where
  "PendingMoveDialog_onCancel st = st\<lparr>pendingMove := None\<rparr>"

subsection \<open>Saving\<close>

text \<open>
  What \<open>saveSchema\<close> and the submit handler do besides changing the form:
  the call of the persistence collaborator, the notifications and the call of
  \<open>handleClose\<close>.
\<close>

datatype editor_effect =
    PersistenceSaveSchema EntitySchema
  | SetErrorUndefined
  | SnackbarOpen string string
  | HandleClose "EntitySchema option"
  | ConsoleError string

text \<open>
  \<open>saveSchema\<close>: \<open>prepare\<close> stands for \<open>prepareSchemaForPersistence\<close> (not among
  the sources), \<open>persist\<close> gives the promise of
  \<open>configurationPersistence.saveSchema\<close> as it settles, \<open>handleClose\<close> says whether
  that callback was supplied. The result is the promise \<open>saveSchema\<close> returns:
  fulfilled with \<open>true\<close> after a success and with \<open>false\<close> after a failure.
\<close>

definition saveSchema ::
  "(EntitySchema \<Rightarrow> EntitySchema) \<Rightarrow> (EntitySchema \<Rightarrow> unit promise) \<Rightarrow> bool \<Rightarrow> EntitySchema
     \<Rightarrow> editor_effect list \<times> bool promise" where
  "saveSchema prepare persist handleClose schema =
     (let newSchema = prepare schema in
      case persist newSchema of
        Fulfilled u \<Rightarrow>
          ([PersistenceSaveSchema newSchema, SetErrorUndefined,
            SnackbarOpen ''success'' ''Schema updated'']
             @ (if handleClose then [HandleClose (Some schema)] else []),
           Fulfilled True)
      | Rejected e \<Rightarrow>
          ([PersistenceSaveSchema newSchema, ConsoleError e,
            SnackbarOpen ''error'' ''Error persisting schema''],
           Fulfilled False)
      | Pending \<Rightarrow> ([PersistenceSaveSchema newSchema], Pending))"

text \<open>
  Formik's \<open>onSubmit\<close>: \<open>saveSchema(newSchema).then(() => resetForm({ values:
  newSchema }))\<close>. The continuation does not look at the boolean.
\<close>

definition onSubmit ::
  "(EntitySchema \<Rightarrow> EntitySchema) \<Rightarrow> (EntitySchema \<Rightarrow> unit promise) \<Rightarrow> bool \<Rightarrow> EntitySchema
     \<Rightarrow> Formik \<Rightarrow> Formik \<times> editor_effect list" where
  "onSubmit prepare persist handleClose newSchema f =
     (case saveSchema prepare persist handleClose newSchema of
        (effects, Fulfilled saved) \<Rightarrow> (resetForm newSchema f, effects)
      | (effects, Pending) \<Rightarrow> (f, effects)
      | (effects, Rejected e) \<Rightarrow> (f, effects))"

section \<open>The property tree model\<close>

text \<open>
  \<open>propertiesToTree\<close> and \<open>treeToProperties\<close> (module \<open>SchemaEditor/util\<close>) and
  \<open>sortProperties\<close> (module \<open>util/schemas\<close>) are not among the sources; only their
  calls in \<open>SchemaEditorForm\<close> are. The definitions of this section follow section
  4.1 of the spec instead, where the two directions are called \<open>toTree\<close> and
  \<open>fromTree\<close>.
\<close>













section \<open>The words of the claims about a drag\<close>

text \<open>
  The item a source position points at (the child of that index of the source parent),
  and the two tests on a \<open>data.property\<close>: \<open>typeof p === "function"\<close>, and a
  concrete property whose \<open>dataType\<close> is \<open>"map"\<close>.
\<close>

definition draggedItem :: "TreeData \<Rightarrow> TreeSourcePosition \<Rightarrow> TreeItem option" where
  "draggedItem tree source =
     (case map_of (items tree) (src_parentId source) of
        None \<Rightarrow> None
      | Some sourceParent \<Rightarrow>
          if src_index source < length (children sourceParent)
          then map_of (items tree) (children sourceParent ! src_index source)
          else None)"

fun isBuilder :: "PropertyOrBuilder option \<Rightarrow> bool" where
  "isBuilder (Some (Builder b)) = True"
| "isBuilder p = False"

fun isMapProperty :: "PropertyOrBuilder option \<Rightarrow> bool" where
  "isMapProperty (Some (Property t dataType v ps)) = (dataType = ''map'')"
| "isMapProperty p = False"

section \<open>Concrete inputs\<close>

text \<open>Two entities, and the props and states the examples below are evaluated at.\<close>

definition E1 :: Entity where
  "E1 = \<lparr>entity_id = ''e1'', entity_path = ''products'', entity_values = [(''name'', ''Chair'')]\<rparr>"

definition E2 :: Entity where
  "E2 = \<lparr>entity_id = ''e2'', entity_path = ''products'', entity_values = [(''name'', ''Table'')]\<rparr>"

definition multiProps :: ReferenceDialogProps where
  "multiProps = \<lparr>multiselect = True, collection = True, selectedEntityIds = Some [''e1'', ''e2''],
     onSingleEntitySelected = False, onMultipleEntitiesSelected = True, onClose = False\<rparr>"

definition singleProps :: ReferenceDialogProps where
  "singleProps = \<lparr>multiselect = False, collection = True, selectedEntityIds = None,
     onSingleEntitySelected = True, onMultipleEntitiesSelected = False, onClose = False\<rparr>"



text \<open>A small tree: \<open>title\<close>, the map \<open>address\<close> with the child \<open>city\<close>, and a builder.\<close>

definition exampleTree :: TreeData where
  "exampleTree = \<lparr>rootId = ''root'', items =
     [(''root'', \<lparr>item_id = ''root'', children = [''title'', ''address'', ''computed''],
                  data = \<lparr>property = None\<rparr>\<rparr>),
      (''title'', \<lparr>item_id = ''title'', children = [],
                   data = \<lparr>property = Some (Property ''Title'' ''string'' [] [])\<rparr>\<rparr>),
      (''address'', \<lparr>item_id = ''address'', children = [''address.city''],
                     data = \<lparr>property = Some (Property ''Address'' ''map'' []
                        [(''city'', Property ''City'' ''string'' [] [])])\<rparr>\<rparr>),
      (''address.city'', \<lparr>item_id = ''address.city'', children = [],
                          data = \<lparr>property = Some (Property ''City'' ''string'' [] [])\<rparr>\<rparr>),
      (''computed'', \<lparr>item_id = ''computed'', children = [],
                      data = \<lparr>property = Some (Builder 0)\<rparr>\<rparr>)]\<rparr>"

definition exampleForm :: SchemaEditorForm where
  "exampleForm = \<lparr>formik = \<lparr>formValues = \<lparr>schema_id = ''product'', name = ''Product'',
        properties = [(''title'', Property ''Title'' ''string'' [] []),
                      (''address'', Property ''Address'' ''map'' []
                         [(''city'', Property ''City'' ''string'' [] [])]),
                      (''computed'', Builder 0)],
        propertiesOrder = Some [''title'', ''address'', ''computed'']\<rparr>,
      initialValues = \<lparr>schema_id = [], name = [], properties = [], propertiesOrder = None\<rparr>,
      touched_id = False\<rparr>,
    pendingMove = None\<rparr>"


text \<open>
  A draft that differs from the initial values of a new schema, and a stand-in for
  \<open>toSnakeCase\<close> that lower-cases the two names the examples use.
\<close>

definition productDraft :: EntitySchema where
  "productDraft = \<lparr>schema_id = ''product'', name = ''Product'', properties = [],
     propertiesOrder = None\<rparr>"

definition emptySchema :: EntitySchema where
  "emptySchema = \<lparr>schema_id = [], name = [], properties = [], propertiesOrder = None\<rparr>"

definition snakeProduct :: "string \<Rightarrow> string" where
  "snakeProduct s =
     (if s = ''Product'' then ''product'' else if s = ''Products'' then ''products'' else s)"

section \<open>Properties of the bulk delete button\<close>

text \<open>
  C5. In the collection table, the bulk delete button is enabled if and only if the
  selection is not empty and every selected entity passes \<open>canDelete\<close>, for every
  selection and every permission function. The button exists when selection is enabled.
\<close>

theorem multipleDeleteButton_enabled_iff:
  assumes "selectionEnabled"
  shows "\<exists>b. multipleDeleteButton selectionEnabled canDelete selected = Some b \<and>
             (\<not> disabled b \<longleftrightarrow> selected \<noteq> [] \<and> (\<forall>e \<in> set selected. canDelete e))"
  using assms by (simp add: multipleDeleteButton_def multipleDeleteEnabled_def list_all_iff)

text \<open>
  With \<open>e2\<close> the one entity that may not be deleted: the button is enabled for
  \<open>[E1]\<close>, disabled for \<open>[E1, E2]\<close> and disabled for the empty selection.
\<close>

theorem multipleDeleteButton_enabled_iff_witness:
  "map_option disabled (multipleDeleteButton True (\<lambda>e. entity_id e \<noteq> ''e2'') [E1]) = Some False \<and>
   map_option disabled (multipleDeleteButton True (\<lambda>e. entity_id e \<noteq> ''e2'') [E1, E2]) = Some True \<and>
   map_option disabled (multipleDeleteButton True (\<lambda>e. entity_id e \<noteq> ''e2'') []) = Some True"
  using multipleDeleteButton_enabled_iff [of True "\<lambda>e. entity_id e \<noteq> ''e2''" "[E1]"]
    multipleDeleteButton_enabled_iff [of True "\<lambda>e. entity_id e \<noteq> ''e2''" "[E1, E2]"]
    multipleDeleteButton_enabled_iff [of True "\<lambda>e. entity_id e \<noteq> ''e2''" "[]"]
  by (auto simp: E1_def E2_def)

section \<open>Properties of the reference dialog\<close>

subsection \<open>The initial selection\<close>






subsection \<open>A click in single selection\<close>

text \<open>
  The claim C6 as it is written, "with \<open>multiselect == false\<close> every click calls the
  single-selection callback, closes the dialog and never calls the multiple-selection
  callback", fails when \<open>onSingleEntitySelected\<close> was not supplied: the click then
  takes the toggling branch, reports \<open>[E1]\<close> to the multiple-selection callback and
  leaves the dialog open.
\<close>

theorem onEntityClick_single_counterexample:
  "onEntityClick \<lparr>multiselect = False, collection = True, selectedEntityIds = None,
       onSingleEntitySelected = False, onMultipleEntitiesSelected = True, onClose = False\<rparr>
     \<lparr>selectedEntities = Some []\<rparr> E1
   = (\<lparr>selectedEntities = Some [E1]\<rparr>, [MultipleEntitiesSelected [E1]])"
  by (simp add: onEntityClick_def toggleEntitySelection_def Let_def)

text \<open>
  C6, amended. In the reference dialog with \<open>multiselect == false\<close> and a
  single-selection callback supplied, a click on any entity \<open>e\<close> calls that callback
  with exactly \<open>e\<close>, then closes the dialog, leaves the selection state as it was and
  never calls the multiple-selection callback.
\<close>

theorem onEntityClick_single:
  assumes "\<not> multiselect props" and "onSingleEntitySelected props"
  shows "onEntityClick props st e = (st, [SingleEntitySelected (Some e), SideDialogClose]) \<and>
         (\<forall>es. MultipleEntitiesSelected es \<notin> set (snd (onEntityClick props st e)))"
  using assms by (simp add: onEntityClick_def)

theorem onEntityClick_single_witness:
  "onEntityClick singleProps \<lparr>selectedEntities = Some [E2]\<rparr> E1
     = (\<lparr>selectedEntities = Some [E2]\<rparr>, [SingleEntitySelected (Some E1), SideDialogClose])"
  using onEntityClick_single [of singleProps "\<lparr>selectedEntities = Some [E2]\<rparr>" E1]
  by (simp add: singleProps_def)

subsection \<open>A click in multiple selection\<close>

text \<open>
  C7. In the reference dialog with \<open>multiselect == true\<close> (the selection loaded, the
  multiple-selection callback supplied) a click on a row toggles the membership of that
  entity's id in the selection: the new selection is stored and reported whole to the
  callback; the id of the clicked entity is in it exactly if it was not before; the
  other entities are the same, in the same order; a removal is the old list without the
  entities of that id, an addition is the old list with the entity appended.
\<close>

theorem onEntityClick_multiselect_toggles:
  assumes "multiselect props" and "onMultipleEntitiesSelected props"
    and "selectedEntities st = Some sel"
  shows "\<exists>newValue.
           onEntityClick props st e
             = (st\<lparr>selectedEntities := Some newValue\<rparr>, [MultipleEntitiesSelected newValue]) \<and>
           (entity_id e \<in> entity_id ` set newValue \<longleftrightarrow> entity_id e \<notin> entity_id ` set sel) \<and>
           filter (\<lambda>x. entity_id x \<noteq> entity_id e) newValue
             = filter (\<lambda>x. entity_id x \<noteq> entity_id e) sel \<and>
           (entity_id e \<in> entity_id ` set sel \<longrightarrow>
              newValue = filter (\<lambda>x. entity_id x \<noteq> entity_id e) sel) \<and>
           (entity_id e \<notin> entity_id ` set sel \<longrightarrow> newValue = sel @ [e])"
  using assms by (auto simp: onEntityClick_def toggleEntitySelection_def Let_def)

text \<open>With \<open>[E1, E2]\<close> selected, toggling \<open>E2\<close> off reports exactly \<open>[E1]\<close>.\<close>

theorem onEntityClick_multiselect_toggles_witness:
  "onEntityClick multiProps \<lparr>selectedEntities = Some [E1, E2]\<rparr> E2
     = (\<lparr>selectedEntities = Some [E1]\<rparr>, [MultipleEntitiesSelected [E1]])"
  using onEntityClick_multiselect_toggles
          [of multiProps "\<lparr>selectedEntities = Some [E1, E2]\<rparr>" "[E1, E2]" E2]
  by (auto simp: multiProps_def E1_def E2_def)

subsection \<open>Clear in multiple selection\<close>

text \<open>
  C10. In multiple selection (the callback supplied) "Clear" calls the
  multiple-selection callback with the empty list and leaves the state of the dialog as
  it was: the marks of the rows and the next toggle still work on the selection from
  before the Clear.
\<close>

theorem onClear_multiselect_keeps_state:
  assumes "multiselect props" and "onMultipleEntitiesSelected props"
  shows "onClear props st = (st, [MultipleEntitiesSelected []]) \<and>
         isSelected (fst (onClear props st)) e = isSelected st e \<and>
         onEntityClick props (fst (onClear props st)) e = onEntityClick props st e"
  using assms by (simp add: onClear_def)

text \<open>
  After Clear with \<open>[E1, E2]\<close> selected, \<open>E2\<close> is still marked, and a click on it
  reports \<open>[E1]\<close>, not \<open>[E2]\<close>.
\<close>

theorem onClear_multiselect_keeps_state_witness:
  "onClear multiProps \<lparr>selectedEntities = Some [E1, E2]\<rparr>
     = (\<lparr>selectedEntities = Some [E1, E2]\<rparr>, [MultipleEntitiesSelected []]) \<and>
   isSelected (fst (onClear multiProps \<lparr>selectedEntities = Some [E1, E2]\<rparr>)) E2 \<and>
   onEntityClick multiProps (fst (onClear multiProps \<lparr>selectedEntities = Some [E1, E2]\<rparr>)) E2
     = (\<lparr>selectedEntities = Some [E1]\<rparr>, [MultipleEntitiesSelected [E1]])"
  using onClear_multiselect_keeps_state [of multiProps "\<lparr>selectedEntities = Some [E1, E2]\<rparr>" E2]
  by (auto simp: multiProps_def E1_def E2_def isSelected_def onEntityClick_def
        toggleEntitySelection_def Let_def)

section \<open>Properties of the property tree model\<close>

subsection \<open>Keys and paths\<close>



subsection \<open>Looking up an item of one subtree in the whole list of items\<close>







subsection \<open>Flattening the subtree of one property\<close>



subsection \<open>Paths under different keys are different\<close>








subsection \<open>The round trip\<close>





section \<open>Properties of the schema editor\<close>

subsection \<open>The validity of a drag\<close>

text \<open>
  When the source position points at an item of the tree, \<open>isValidDrag\<close> is the
  cascade of its four tests; it throws only when the destination parent is looked up and
  is not an item of the tree.
\<close>

lemma isValidDrag_dragged:
  assumes "draggedItem tree source = Some dragged"
  shows "isValidDrag tree source destination =
     (if isBuilder (property (data dragged)) then Inr False
      else if dst_index destination = None then Inr False
      else if dst_parentId destination = rootId tree then Inr True
      else
        (case map_of (items tree) (dst_parentId destination) of
           None \<Rightarrow> Inl TypeError
         | Some destinationParent \<Rightarrow>
             (case map_of (items tree) (item_id destinationParent) of
                None \<Rightarrow> Inl TypeError
              | Some destinationItem \<Rightarrow> Inr (isMapProperty (property (data destinationItem))))))"
proof -
  from assms obtain sourceParent where
    p: "map_of (items tree) (src_parentId source) = Some sourceParent"
    and i: "src_index source < length (children sourceParent)"
    and d: "map_of (items tree) (children sourceParent ! src_index source) = Some dragged"
    by (auto simp: draggedItem_def split: option.splits if_splits)
  show ?thesis
  proof (cases "property (data dragged)")
    case None
    then show ?thesis using p i d
      by (auto simp: isValidDrag_def split: option.splits PropertyOrBuilder.splits
          elim: isMapProperty.elims)
  next
    case (Some q)
    then show ?thesis using p i d
      by (cases q) (auto simp: isValidDrag_def split: option.splits PropertyOrBuilder.splits
          elim: isMapProperty.elims)
  qed
qed

text \<open>
  C2. For a tree and a move request whose source position points at an item of the
  tree: the move is rejected when the property of the dragged item is a builder,
  whatever the destination; rejected when \<open>destination.index\<close> is undefined;
  otherwise accepted when the destination parent is the root of the tree; and otherwise,
  the destination parent being an item of the tree stored under its own id, accepted
  exactly when the property of the destination parent is a concrete property with
  \<open>dataType == "map"\<close>. A rejected move is a no-op: \<open>onDragEnd\<close> returns the
  form state it was given, and with it the draft and the tree derived from it.
\<close>

theorem isValidDrag_spec:
  assumes "draggedItem tree source = Some dragged"
  shows "(isBuilder (property (data dragged)) \<longrightarrow> isValidDrag tree source destination = Inr False) \<and>
         (dst_index destination = None \<longrightarrow> isValidDrag tree source destination = Inr False) \<and>
         (\<not> isBuilder (property (data dragged)) \<and> dst_index destination \<noteq> None \<and>
          dst_parentId destination = rootId tree \<longrightarrow>
            isValidDrag tree source destination = Inr True) \<and>
         (\<not> isBuilder (property (data dragged)) \<and> dst_index destination \<noteq> None \<and>
          dst_parentId destination \<noteq> rootId tree \<and>
          map_of (items tree) (dst_parentId destination) = Some destinationParent \<and>
          item_id destinationParent = dst_parentId destination \<longrightarrow>
            isValidDrag tree source destination
              = Inr (isMapProperty (property (data destinationParent)))) \<and>
         (isValidDrag tree source destination = Inr False \<longrightarrow>
            onDragEnd move fromTree tree source (Some destination) st = Inr st)"
  using isValidDrag_dragged [OF assms, of destination]
  by (auto simp: onDragEnd_def)


text \<open>
  On the example tree: the builder \<open>computed\<close> may not be moved; \<open>title\<close> may not
  be dropped without an index, may be moved within the root and into the map
  \<open>address\<close>; \<open>address.city\<close> may not be moved under the string \<open>title\<close>, and
  that drag leaves the form as it was.
\<close>

theorem isValidDrag_spec_witness:
  "isValidDrag exampleTree \<lparr>src_parentId = ''root'', src_index = 2\<rparr>
       \<lparr>dst_parentId = ''root'', dst_index = Some 0\<rparr> = Inr False \<and>
   isValidDrag exampleTree \<lparr>src_parentId = ''root'', src_index = 0\<rparr>
       \<lparr>dst_parentId = ''address'', dst_index = None\<rparr> = Inr False \<and>
   isValidDrag exampleTree \<lparr>src_parentId = ''root'', src_index = 0\<rparr>
       \<lparr>dst_parentId = ''root'', dst_index = Some 1\<rparr> = Inr True \<and>
   isValidDrag exampleTree \<lparr>src_parentId = ''root'', src_index = 0\<rparr>
       \<lparr>dst_parentId = ''address'', dst_index = Some 0\<rparr> = Inr True \<and>
   isValidDrag exampleTree \<lparr>src_parentId = ''address'', src_index = 0\<rparr>
       \<lparr>dst_parentId = ''title'', dst_index = Some 0\<rparr> = Inr False \<and>
   onDragEnd (\<lambda>t s d. t) (\<lambda>t. ([], [])) exampleTree \<lparr>src_parentId = ''address'', src_index = 0\<rparr>
       (Some \<lparr>dst_parentId = ''title'', dst_index = Some 0\<rparr>) exampleForm = Inr exampleForm"
  using
    isValidDrag_spec [of exampleTree "\<lparr>src_parentId = ''root'', src_index = 2\<rparr>"
      "\<lparr>item_id = ''computed'', children = [], data = \<lparr>property = Some (Builder 0)\<rparr>\<rparr>"
      "\<lparr>dst_parentId = ''root'', dst_index = Some 0\<rparr>"]
    isValidDrag_spec [of exampleTree "\<lparr>src_parentId = ''root'', src_index = 0\<rparr>"
      "\<lparr>item_id = ''title'', children = [],
         data = \<lparr>property = Some (Property ''Title'' ''string'' [] [])\<rparr>\<rparr>"
      "\<lparr>dst_parentId = ''address'', dst_index = None\<rparr>"]
    isValidDrag_spec [of exampleTree "\<lparr>src_parentId = ''root'', src_index = 0\<rparr>"
      "\<lparr>item_id = ''title'', children = [],
         data = \<lparr>property = Some (Property ''Title'' ''string'' [] [])\<rparr>\<rparr>"
      "\<lparr>dst_parentId = ''root'', dst_index = Some 1\<rparr>"]
    isValidDrag_spec [of exampleTree "\<lparr>src_parentId = ''root'', src_index = 0\<rparr>"
      "\<lparr>item_id = ''title'', children = [],
         data = \<lparr>property = Some (Property ''Title'' ''string'' [] [])\<rparr>\<rparr>"
      "\<lparr>dst_parentId = ''address'', dst_index = Some 0\<rparr>"
      "\<lparr>item_id = ''address'', children = [''address.city''],
         data = \<lparr>property = Some (Property ''Address'' ''map'' []
            [(''city'', Property ''City'' ''string'' [] [])])\<rparr>\<rparr>"]
    isValidDrag_spec [of exampleTree "\<lparr>src_parentId = ''address'', src_index = 0\<rparr>"
      "\<lparr>item_id = ''address.city'', children = [],
         data = \<lparr>property = Some (Property ''City'' ''string'' [] [])\<rparr>\<rparr>"
      "\<lparr>dst_parentId = ''title'', dst_index = Some 0\<rparr>"
      "\<lparr>item_id = ''title'', children = [],
         data = \<lparr>property = Some (Property ''Title'' ''string'' [] [])\<rparr>\<rparr>"
      "\<lambda>t s d. t" "\<lambda>t. ([], [])" exampleForm]
  by (simp add: exampleTree_def draggedItem_def)

subsection \<open>Moves between parents wait for the confirmation\<close>

lemma doPropertyMove_fields:
  "properties (formValues (formik (doPropertyMove move fromTree tree source dest st)))
     = fst (fromTree (move tree source dest)) \<and>
   propertiesOrder (formValues (formik (doPropertyMove move fromTree tree source dest st)))
     = Some (snd (fromTree (move tree source dest))) \<and>
   pendingMove (doPropertyMove move fromTree tree source dest st) = pendingMove st"
  by (simp add: doPropertyMove_def Let_def split: prod.splits)

lemma PendingMoveDialog_text_not_transferred:
  "sublist ''not transfer the data'' (PendingMoveDialog_text ! 1)"
proof -
  have "PendingMoveDialog_text ! 1
          = ''This will '' @ ''not transfer the data'' @ '', only modify the schema.''"
    by (simp add: PendingMoveDialog_text_def)
  then show ?thesis unfolding sublist_def by blast
qed

text \<open>
  C3. A valid drag whose source parent differs from its destination parent changes
  nothing of the draft (the Formik state, and so the tree derived from it, is as
  before): it only records the pending move, which opens the dialog. Cancelling the
  dialog closes it with the draft still unchanged; accepting it applies the move, that
  is, stores the properties and the order that \<open>treeToProperties\<close> gives for the
  moved tree. A valid drag within one parent is applied at once. The text of the
  dialog says that the data is not transferred.
\<close>

theorem onDragEnd_confirmation:
  assumes "isValidDrag (treeMemo sortP toTree st) source dest = Inr True"
  shows "(src_parentId source \<noteq> dst_parentId dest \<longrightarrow>
            (\<exists>st'. onDragEnd move fromTree (treeMemo sortP toTree st) source (Some dest) st = Inr st' \<and>
               formik st' = formik st \<and>
               pendingMove st' = Some (source, dest) \<and>
               PendingMoveDialog_open st' \<and>
               treeMemo sortP toTree st' = treeMemo sortP toTree st \<and>
               formik (PendingMoveDialog_onCancel st') = formik st \<and>
               \<not> PendingMoveDialog_open (PendingMoveDialog_onCancel st') \<and>
               PendingMoveDialog_onAccept move fromTree (treeMemo sortP toTree st') st'
                 = doPropertyMove move fromTree (treeMemo sortP toTree st) source dest
                     (st\<lparr>pendingMove := None\<rparr>))) \<and>
         (src_parentId source = dst_parentId dest \<longrightarrow>
            onDragEnd move fromTree (treeMemo sortP toTree st) source (Some dest) st
              = Inr (doPropertyMove move fromTree (treeMemo sortP toTree st) source dest st)) \<and>
         properties (formValues (formik (doPropertyMove move fromTree tree source dest st)))
           = fst (fromTree (move tree source dest)) \<and>
         propertiesOrder (formValues (formik (doPropertyMove move fromTree tree source dest st)))
           = Some (snd (fromTree (move tree source dest))) \<and>
         sublist ''not transfer the data'' (PendingMoveDialog_text ! 1)"
proof (intro conjI impI)
  assume ne: "src_parentId source \<noteq> dst_parentId dest"
  let ?st' = "st\<lparr>pendingMove := Some (source, dest)\<rparr>"
  have 1: "onDragEnd move fromTree (treeMemo sortP toTree st) source (Some dest) st = Inr ?st'"
    using assms ne by (simp add: onDragEnd_def)
  have 2: "treeMemo sortP toTree ?st' = treeMemo sortP toTree st"
    by (simp add: treeMemo_def)
  have 3: "PendingMoveDialog_onAccept move fromTree (treeMemo sortP toTree ?st') ?st'
             = doPropertyMove move fromTree (treeMemo sortP toTree st) source dest
                 (st\<lparr>pendingMove := None\<rparr>)"
    unfolding 2 by (simp add: PendingMoveDialog_onAccept_def)
  show "\<exists>st'. onDragEnd move fromTree (treeMemo sortP toTree st) source (Some dest) st = Inr st' \<and>
               formik st' = formik st \<and>
               pendingMove st' = Some (source, dest) \<and>
               PendingMoveDialog_open st' \<and>
               treeMemo sortP toTree st' = treeMemo sortP toTree st \<and>
               formik (PendingMoveDialog_onCancel st') = formik st \<and>
               \<not> PendingMoveDialog_open (PendingMoveDialog_onCancel st') \<and>
               PendingMoveDialog_onAccept move fromTree (treeMemo sortP toTree st') st'
                 = doPropertyMove move fromTree (treeMemo sortP toTree st) source dest
                     (st\<lparr>pendingMove := None\<rparr>)"
    using 1 2 3
    by (intro exI [of _ ?st'])
       (simp add: PendingMoveDialog_open_def PendingMoveDialog_onCancel_def)
next
  assume "src_parentId source = dst_parentId dest"
  then show "onDragEnd move fromTree (treeMemo sortP toTree st) source (Some dest) st
              = Inr (doPropertyMove move fromTree (treeMemo sortP toTree st) source dest st)"
    using assms by (simp add: onDragEnd_def)
next
  show "sublist ''not transfer the data'' (PendingMoveDialog_text ! 1)"
    by (rule PendingMoveDialog_text_not_transferred)
qed (simp_all add: doPropertyMove_fields)

text \<open>
  Dragging \<open>title\<close> into \<open>address\<close> only records the pending move; dragging it
  within the root stores what the (stand-in) flattening returns.
\<close>

theorem onDragEnd_confirmation_witness:
  "onDragEnd (\<lambda>t s d. t) (\<lambda>t. ([(''address'', Builder 1)], [''address'']))
       (treeMemo (\<lambda>p order. p) (\<lambda>p. exampleTree) exampleForm)
       \<lparr>src_parentId = ''root'', src_index = 0\<rparr>
       (Some \<lparr>dst_parentId = ''address'', dst_index = Some 0\<rparr>) exampleForm
     = Inr (exampleForm\<lparr>pendingMove :=
         Some (\<lparr>src_parentId = ''root'', src_index = 0\<rparr>,
               \<lparr>dst_parentId = ''address'', dst_index = Some 0\<rparr>)\<rparr>) \<and>
   onDragEnd (\<lambda>t s d. t) (\<lambda>t. ([(''address'', Builder 1)], [''address'']))
       (treeMemo (\<lambda>p order. p) (\<lambda>p. exampleTree) exampleForm)
       \<lparr>src_parentId = ''root'', src_index = 0\<rparr>
       (Some \<lparr>dst_parentId = ''root'', dst_index = Some 1\<rparr>) exampleForm
     = Inr (exampleForm\<lparr>formik := (formik exampleForm)\<lparr>formValues :=
         (formValues (formik exampleForm))\<lparr>propertiesOrder := Some [''address''],
            properties := [(''address'', Builder 1)]\<rparr>\<rparr>\<rparr>)"
  using
    onDragEnd_confirmation [of "\<lambda>p order. p" "\<lambda>p. exampleTree" exampleForm
      "\<lparr>src_parentId = ''root'', src_index = 0\<rparr>"
      "\<lparr>dst_parentId = ''address'', dst_index = Some 0\<rparr>"
      "\<lambda>t s d. t" "\<lambda>t. ([(''address'', Builder 1)], [''address''])"]
    onDragEnd_confirmation [of "\<lambda>p order. p" "\<lambda>p. exampleTree" exampleForm
      "\<lparr>src_parentId = ''root'', src_index = 0\<rparr>"
      "\<lparr>dst_parentId = ''root'', dst_index = Some 1\<rparr>"
      "\<lambda>t s d. t" "\<lambda>t. ([(''address'', Builder 1)], [''address''])"]
  by (auto simp: treeMemo_def exampleTree_def isValidDrag_def doPropertyMove_def)

subsection \<open>The id follows the name, and an id typed by hand is lost\<close>

lemma idFromNameEffect_touched:
  "touched_id f \<Longrightarrow> idFromNameEffect toSnakeCase isNewSchema f = f"
  by (simp add: idFromNameEffect_def)

lemma nameChanged_touched:
  assumes "touched_id f"
  shows "schema_id (formValues (nameChanged toSnakeCase isNewSchema newName f))
           = schema_id (formValues f) \<and>
         touched_id (nameChanged toSnakeCase isNewSchema newName f)"
  using assms by (simp add: nameChanged_def Let_def idFromNameEffect_def)

lemma nameChanged_sets_id:
  assumes "\<not> touched_id f" and "isNewSchema" and "newName \<noteq> []"
    and "newName \<noteq> name (formValues f)"
  shows "schema_id (formValues (nameChanged toSnakeCase isNewSchema newName f)) = toSnakeCase newName"
  using assms by (simp add: nameChanged_def Let_def idFromNameEffect_def)

text \<open>
  The guard \<open>values.name\<close> of the effect skips the empty name: a change of the name to
  the empty string leaves the id what it was, so that no \<open>toSnakeCase\<close> at all gives
  the id after every change of the name.
\<close>

lemma nameChanged_empty_keeps_id:
  "schema_id (formValues (nameChanged toSnakeCase isNewSchema [] f)) = schema_id (formValues f)"
  by (simp add: nameChanged_def Let_def idFromNameEffect_def)

lemma nameChanged_empty_name_no_slug:
  "\<not> (\<exists>toSnakeCase. \<forall>f newName.
        \<not> touched_id f \<and> newName \<noteq> name (formValues f) \<longrightarrow>
          schema_id (formValues (nameChanged toSnakeCase True newName f)) = toSnakeCase newName)"
proof
  assume "\<exists>toSnakeCase. \<forall>f newName.
        \<not> touched_id f \<and> newName \<noteq> name (formValues f) \<longrightarrow>
          schema_id (formValues (nameChanged toSnakeCase True newName f)) = toSnakeCase newName"
  then obtain toSnakeCase where h: "\<And>f newName.
        \<not> touched_id f \<and> newName \<noteq> name (formValues f) \<Longrightarrow>
          schema_id (formValues (nameChanged toSnakeCase True newName f)) = toSnakeCase newName"
    by blast
  let ?f = "\<lparr>formValues = productDraft, initialValues = emptySchema, touched_id = False\<rparr>"
  let ?g = "\<lparr>formValues = productDraft\<lparr>schema_id := ''goods''\<rparr>, initialValues = emptySchema,
              touched_id = False\<rparr>"
  have "schema_id (formValues (nameChanged toSnakeCase True [] ?f)) = toSnakeCase []"
    by (rule h) (simp add: productDraft_def)
  then have 1: "toSnakeCase [] = ''product''"
    by (simp add: nameChanged_empty_keeps_id productDraft_def)
  have "schema_id (formValues (nameChanged toSnakeCase True [] ?g)) = toSnakeCase []"
    by (rule h) (simp add: productDraft_def)
  then have 2: "toSnakeCase [] = ''goods''"
    by (simp add: nameChanged_empty_keeps_id productDraft_def)
  from 1 2 show False by simp
qed

text \<open>
  Typing an id stores it and does not set the touched flag, so the next change of the
  name to another non-empty name writes \<open>toSnakeCase(name)\<close> over it, for every
  \<open>toSnakeCase\<close>.
\<close>

lemma idChanged_not_touched:
  "schema_id (formValues (idChanged newId f)) = newId \<and>
   name (formValues (idChanged newId f)) = name (formValues f) \<and>
   touched_id (idChanged newId f) = touched_id f"
  by (simp add: idChanged_def)

lemma nameChanged_after_idChanged:
  assumes "\<not> touched_id f" and "isNewSchema" and "newName \<noteq> []"
    and "newName \<noteq> name (formValues f)"
  shows "schema_id (formValues (nameChanged toSnakeCase isNewSchema newName (idChanged newId f)))
           = toSnakeCase newName"
  using assms idChanged_not_touched [of newId f]
  by (intro nameChanged_sets_id) simp_all

text \<open>
  C4. The claim says that once the id has been edited by hand no later change of the
  name alters it. Evaluated on a new schema: the name \<open>Product\<close> gives the id
  \<open>product\<close>; the user types the id \<open>my_id\<close>, which is stored while the touched
  flag stays unset; the name is then changed to \<open>Products\<close>, and the id becomes
  \<open>products\<close>.
\<close>

theorem idChanged_then_nameChanged_overwrites:
  "schema_id (formValues (nameChanged snakeProduct True ''Product''
      \<lparr>formValues = emptySchema, initialValues = emptySchema, touched_id = False\<rparr>)) = ''product'' \<and>
   schema_id (formValues (idChanged ''my_id'' (nameChanged snakeProduct True ''Product''
      \<lparr>formValues = emptySchema, initialValues = emptySchema, touched_id = False\<rparr>))) = ''my_id'' \<and>
   \<not> touched_id (idChanged ''my_id'' (nameChanged snakeProduct True ''Product''
      \<lparr>formValues = emptySchema, initialValues = emptySchema, touched_id = False\<rparr>)) \<and>
   schema_id (formValues (nameChanged snakeProduct True ''Products''
      (idChanged ''my_id'' (nameChanged snakeProduct True ''Product''
        \<lparr>formValues = emptySchema, initialValues = emptySchema, touched_id = False\<rparr>))))
     = ''products''"
  by (simp add: nameChanged_def idChanged_def idFromNameEffect_def Let_def emptySchema_def
      snakeProduct_def)

subsection \<open>Saving\<close>

text \<open>
  After a failed save the continuation of \<open>onSubmit\<close> still resets the form to the
  submitted values, which clears \<open>dirty\<close>; after a successful one it does the same,
  and \<open>handleClose\<close> receives the draft as it was submitted.
\<close>

lemma onSubmit_rejected:
  assumes "persist (prepare newSchema) = Rejected e"
  shows "onSubmit prepare persist handleClose newSchema f
           = (resetForm newSchema f,
              [PersistenceSaveSchema (prepare newSchema), ConsoleError e,
               SnackbarOpen ''error'' ''Error persisting schema''])"
    and "\<not> dirty (resetForm newSchema f)"
  using assms by (simp_all add: onSubmit_def saveSchema_def Let_def dirty_def resetForm_def)

lemma onSubmit_fulfilled:
  assumes "persist (prepare newSchema) = Fulfilled ()"
  shows "onSubmit prepare persist handleClose newSchema f
           = (resetForm newSchema f,
              [PersistenceSaveSchema (prepare newSchema), SetErrorUndefined,
               SnackbarOpen ''success'' ''Schema updated'']
              @ (if handleClose then [HandleClose (Some newSchema)] else []))"
  using assms by (simp add: onSubmit_def saveSchema_def Let_def)

text \<open>
  C9. The claim says that a failed save leaves the draft, its dirty status included, as
  it was. Evaluated on a dirty draft with a persistence collaborator that rejects: the
  error notification is shown, and the form comes back with the draft as its initial
  values, so it is not dirty any more.
\<close>

theorem onSubmit_failure_clears_dirty:
  "dirty \<lparr>formValues = productDraft, initialValues = emptySchema, touched_id = False\<rparr> \<and>
   onSubmit (\<lambda>s. s) (\<lambda>s. Rejected ''unavailable'') True productDraft
       \<lparr>formValues = productDraft, initialValues = emptySchema, touched_id = False\<rparr>
     = (\<lparr>formValues = productDraft, initialValues = productDraft, touched_id = False\<rparr>,
        [PersistenceSaveSchema productDraft, ConsoleError ''unavailable'',
         SnackbarOpen ''error'' ''Error persisting schema'']) \<and>
   \<not> dirty (fst (onSubmit (\<lambda>s. s) (\<lambda>s. Rejected ''unavailable'') True productDraft
       \<lparr>formValues = productDraft, initialValues = emptySchema, touched_id = False\<rparr>))"
  by (simp add: onSubmit_def saveSchema_def Let_def dirty_def resetForm_def
      productDraft_def emptySchema_def)

end
